theory Spec2Isabelle
  imports Complex_Main "HOL-Library.Log_Nat" "HOL-Library.Multiset"
begin

section \<open>Python values used by \<open>main_fixed.py\<close>\<close>

subsection \<open>Exceptions\<close>

text \<open>
  The exceptions the module raises or catches.  \<open>HTTPException\<close> is FastAPI's, with its
  \<open>status_code\<close> and \<open>detail\<close>; \<open>RequestException\<close> is the base class of everything
  \<open>requests\<close> raises; \<open>PyException\<close> stands for every other subclass of \<open>Exception\<close>,
  with the text \<open>str(e)\<close> gives for it.
\<close>

datatype exn =
    HTTPException nat string
  | RequestException string
  | PyException string

subsection \<open>Rendering of integers (\<open>str\<close> and f-strings)\<close>

definition digit_char :: "nat \<Rightarrow> char" where
  "digit_char d = ''0123456789'' ! (d mod 10)"

fun str_nat :: "nat \<Rightarrow> string" where
  "str_nat n = (if n < 10 then [digit_char n] else str_nat (n div 10) @ [digit_char (n mod 10)])"

declare str_nat.simps [simp del]

definition str_int :: "int \<Rightarrow> string" where
  "str_int i = (if i < 0 then CHR ''-'' # str_nat (nat (- i)) else str_nat (nat i))"

subsection \<open>Floats\<close>

text \<open>
  A Python \<open>float\<close> is an IEEE 754 binary64 number.  A finite one is modelled by the
  rational number it denotes, and an arithmetic operation by the exact operation followed
  by \<open>fl\<close>, rounding to the nearest number with a 53-bit significand, ties to even.  The
  exponent is not bounded here: the operands of this program (array dimensions below
  \<open>2^63\<close>, the cap, byte counts) keep every result inside the normal range, except for the
  quotient of an enormous \<open>content-length\<close>, whose overflow is written out in
  \<open>py_truediv\<close>.
\<close>

definition pow2 :: "int \<Rightarrow> rat" where
  "pow2 k = (if 0 \<le> k then 2 ^ nat k else 1 / 2 ^ nat (- k))"

definition flog2 :: "rat \<Rightarrow> int" where
  "flog2 x = (case quotient_of x of (a, b) \<Rightarrow>
     (let k = bitlen a - bitlen b in if pow2 k \<le> x then k else k - 1))"

definition round_half_even :: "rat \<Rightarrow> int" where
  "round_half_even q =
     (let f = \<lfloor>q\<rfloor>; r = q - of_int f
      in if r < 1 / 2 then f else if 1 / 2 < r then f + 1 else if even f then f else f + 1)"

definition fl_pos :: "rat \<Rightarrow> rat" where
  "fl_pos x = (let u = pow2 (flog2 x - 52) in of_int (round_half_even (x / u)) * u)"

definition fl :: "rat \<Rightarrow> rat" where
  "fl x = (if x = 0 then 0 else if 0 < x then fl_pos x else - fl_pos (- x))"

definition max_double :: rat where
  "max_double = (2 ^ 53 - 1) * 2 ^ 971"

text \<open>\<open>a / b\<close> on two \<open>int\<close>s: the correctly rounded quotient, or an exception.\<close>

definition py_truediv :: "int \<Rightarrow> int \<Rightarrow> exn + rat" where
  "py_truediv a b =
     (if b = 0 then Inl (PyException ''division by zero'')
      else (let q = fl (of_int a / of_int b)
            in if max_double < \<bar>q\<bar> then Inl (PyException ''integer division result too large for a float'')
               else Inr q))"

text \<open>\<open>i * x\<close> for an \<open>int\<close> and a \<open>float\<close>: the \<open>int\<close> is converted, then multiplied.\<close>

definition py_int_mul_float :: "int \<Rightarrow> rat \<Rightarrow> rat" where
  "py_int_mul_float i x = fl (fl (of_int i) * x)"

text \<open>\<open>int(x)\<close> on a \<open>float\<close> truncates towards zero.\<close>

definition py_trunc :: "rat \<Rightarrow> int" where
  "py_trunc x = (if 0 \<le> x then \<lfloor>x\<rfloor> else \<lceil>x\<rceil>)"

text \<open>\<open>f"{x:.2f}"\<close> for a float that is not negative.\<close>

definition fmt_2f :: "rat \<Rightarrow> string" where
  "fmt_2f x = (let r = nat (round_half_even (x * 100))
               in str_nat (r div 100) @ ''.'' @ [digit_char (r div 10), digit_char r])"

subsection \<open>Lists\<close>

text \<open>\<open>xs[i]\<close>: a negative index counts from the end, an index out of range raises.\<close>

definition py_index :: "'a list \<Rightarrow> int \<Rightarrow> exn + 'a" where
  "py_index xs i =
     (if 0 \<le> i \<and> i < int (length xs) then Inr (xs ! nat i)
      else if i < 0 \<and> - int (length xs) \<le> i then Inr (xs ! nat (int (length xs) + i))
      else Inl (PyException ''list index out of range''))"

section \<open>Faces and images\<close>

text \<open>
  A detection of the locator engine: the bounding box (left, top, right, bottom) and the
  rest of the detection, an opaque payload.  An image is an array of shape
  \<open>(height, width, \<dots>)\<close>; its pixel data is opaque.
\<close>

record face =
  bbox :: "rat \<times> rat \<times> rat \<times> rat"
  payload :: nat

record image =
  mode :: string
  height :: nat
  width :: nat
  pixels :: "nat list"

definition bbox_0 :: "face \<Rightarrow> rat" where
  "bbox_0 x = fst (bbox x)"

definition sort_faces :: "face list \<Rightarrow> face list" where
  "sort_faces faces = sort_key bbox_0 faces"

definition face_message :: "nat \<Rightarrow> int \<Rightarrow> string" where
  "face_message have requested =
     ''The image includes only '' @ str_nat have @ '' faces, however, you asked for face ''
       @ str_int requested"

definition get_face :: "'a list \<Rightarrow> int \<Rightarrow> exn + 'a" where
  "get_face faces face_id =
     (if int (length faces) < face_id \<or> face_id < 1
      then Inl (HTTPException 400 (face_message (length faces) face_id))
      else (case py_index faces (face_id - 1) of
              Inr f \<Rightarrow> Inr f
            | Inl (HTTPException c d) \<Rightarrow> Inl (HTTPException c d)
            | Inl (RequestException m) \<Rightarrow> Inl (HTTPException 500 (''An error occurred: '' @ m))
            | Inl (PyException m) \<Rightarrow> Inl (HTTPException 500 (''An error occurred: '' @ m))))"

text \<open>
  \<open>validate_and_resize_image\<close>.  \<open>lanczos\<close> is Pillow's resampling, giving the pixel data
  of the resized image; \<open>Image.resize\<close> raises \<open>ValueError\<close> for a size with a side below 1.
\<close>

definition validate_and_resize_image ::
  "(image \<Rightarrow> int \<Rightarrow> int \<Rightarrow> nat list) \<Rightarrow> image \<Rightarrow> int \<Rightarrow> exn + image" where
  "validate_and_resize_image lanczos image_array max_dimension =
     (let h = int (height image_array); w = int (width image_array)
      in if max h w > max_dimension then
           (case py_truediv max_dimension (max h w) of
              Inl e \<Rightarrow> Inl e
            | Inr scale \<Rightarrow>
                (let new_height = py_trunc (py_int_mul_float h scale);
                     new_width = py_trunc (py_int_mul_float w scale)
                 in if new_width < 1 \<or> new_height < 1
                    then Inl (PyException ''height and width must be > 0'')
                    else Inr (image_array\<lparr>height := nat new_height, width := nat new_width,
                                pixels := lanczos image_array new_width new_height\<rparr>)))
         else Inr image_array)"

section \<open>The file system\<close>

text \<open>
  What the module sees of the disk.  A file has a size; \<open>ort_ok\<close> says whether ONNX
  Runtime can build an inference session from its contents, \<open>locked\<close> whether removing it
  is refused.  Files are kept under their absolute paths; \<open>nowrite\<close> lists the paths that
  cannot be created.  \<open>cwd\<close> and \<open>home\<close> are the working and the home directory of the
  process.
\<close>

type_synonym path = string

record disk_file =
  fsize :: nat
  ort_ok :: bool
  locked :: bool

record fs =
  files :: "(path \<times> disk_file) list"
  dirs :: "path list"
  nowrite :: "path list"
  cwd :: path
  home :: path

definition abspath :: "fs \<Rightarrow> path \<Rightarrow> path" where
  "abspath f p = (if take 1 p = ''/'' then p else cwd f @ ''/'' @ p)"

definition expanduser :: "fs \<Rightarrow> path \<Rightarrow> path" where
  "expanduser f p = (if p = ''~'' \<or> take 2 p = ''~/'' then home f @ drop 1 p else p)"

definition os_path_join :: "path \<Rightarrow> path \<Rightarrow> path" where
  "os_path_join a b =
     (if take 1 b = ''/'' then b
      else if a = [] \<or> last a = CHR ''/'' then a @ b else a @ ''/'' @ b)"

definition endswith :: "string \<Rightarrow> string \<Rightarrow> bool" where
  "endswith s suffix = (take (length suffix) (rev s) = rev suffix)"

text \<open>\<open>os.path.splitext(p)[0]\<close>: the path without the extension of its last component.\<close>

definition splitext_root :: "path \<Rightarrow> path" where
  "splitext_root p =
     (let r = rev p;
          ext = takeWhile (\<lambda>c. c \<noteq> CHR ''.'' \<and> c \<noteq> CHR ''/'') r;
          rest = drop (length ext) r
      in if take 1 rest = ''.'' \<and> tl rest \<noteq> [] \<and> take 1 (tl rest) \<noteq> ''/'' \<and> take 1 (tl rest) \<noteq> ''.''
         then rev (tl rest) else p)"

definition lookup_file :: "fs \<Rightarrow> path \<Rightarrow> disk_file option" where
  "lookup_file f p = map_of (files f) (abspath f p)"

definition path_exists :: "fs \<Rightarrow> path \<Rightarrow> bool" where
  "path_exists f p = (p \<noteq> [] \<and> (lookup_file f p \<noteq> None \<or> abspath f p \<in> set (dirs f)))"

definition os_remove :: "fs \<Rightarrow> path \<Rightarrow> exn + fs" where
  "os_remove f p =
     (case lookup_file f p of
        None \<Rightarrow> Inl (PyException ''No such file or directory'')
      | Some x \<Rightarrow>
          if locked x then Inl (PyException ''Permission denied'')
          else Inr (f\<lparr>files := filter (\<lambda>e. fst e \<noteq> abspath f p) (files f)\<rparr>))"

definition shutil_copy2 :: "fs \<Rightarrow> path \<Rightarrow> path \<Rightarrow> exn + fs" where
  "shutil_copy2 f src dst =
     (case lookup_file f src of
        None \<Rightarrow> Inl (PyException ''No such file or directory'')
      | Some x \<Rightarrow>
          if abspath f dst \<in> set (nowrite f) then Inl (PyException ''Permission denied'')
          else Inr (f\<lparr>files := (abspath f dst, x\<lparr>locked := False\<rparr>)
                                 # filter (\<lambda>e. fst e \<noteq> abspath f dst) (files f)\<rparr>))"

definition entry_name :: "path \<Rightarrow> path \<Rightarrow> string option" where
  "entry_name d q =
     (let pre = d @ ''/''; n = drop (length pre) q
      in if take (length pre) q = pre \<and> n \<noteq> [] \<and> CHR ''/'' \<notin> set n then Some n else None)"

definition os_listdir :: "fs \<Rightarrow> path \<Rightarrow> exn + string list" where
  "os_listdir f d =
     (if abspath f d \<in> set (dirs f)
      then Inr (List.map_filter (entry_name (abspath f d)) (map fst (files f) @ dirs f))
      else Inl (PyException ''Not a directory''))"

section \<open>The world outside the process\<close>

text \<open>
  The engines are opaque handles.  Every call that leaves the module (ONNX Runtime,
  InsightFace, the network, Pillow, the engines) is a field of \<open>env\<close> or, where the module
  depends on nothing but the disk, a function of the file system.  The calls that can
  write to the disk (model downloads) return the new file system.  The trace records, in
  order, the external calls a run has made; no call can change it.
\<close>

datatype locator = Locator nat

datatype swapper = Swapper nat

record response =
  status_code :: nat
  content_length :: "string option"
  content :: "nat list"

datatype event =
    OrtSession path
  | FaceAnalysisInit
  | LoadAttempt path nat
  | GetModel string bool
  | HttpRequest string
  | BodyReceived string nat
  | Detect
  | Swap

record env =
  FaceAnalysis :: "fs \<Rightarrow> (exn + locator) \<times> fs"
  get_model :: "fs \<Rightarrow> string \<Rightarrow> bool \<Rightarrow> (exn + swapper option) \<times> fs"
  requests_get :: "string \<Rightarrow> exn + response"
  Image_open :: "nat list \<Rightarrow> exn + image"
  convert_RGB :: "image \<Rightarrow> exn + image"
  lanczos :: "image \<Rightarrow> int \<Rightarrow> int \<Rightarrow> nat list"
  locator_get :: "locator \<Rightarrow> image \<Rightarrow> exn + face list"
  swapper_get :: "swapper \<Rightarrow> image \<Rightarrow> face \<Rightarrow> face \<Rightarrow> exn + image"
  save_png_b64 :: "image \<Rightarrow> exn + string"
  str_HTTPException :: "nat \<Rightarrow> string \<Rightarrow> string"

record world =
  fsys :: fs
  trace :: "event list"

definition emit :: "event \<Rightarrow> world \<Rightarrow> world" where
  "emit ev w = w\<lparr>trace := trace w @ [ev]\<rparr>"

text \<open>\<open>str(e)\<close>; for an \<open>HTTPException\<close> it depends on the version of Starlette.\<close>

definition str_exn :: "env \<Rightarrow> exn \<Rightarrow> string" where
  "str_exn env e =
     (case e of HTTPException c d \<Rightarrow> str_HTTPException env c d
      | RequestException m \<Rightarrow> m
      | PyException m \<Rightarrow> m)"

section \<open>Model files: validation and repair\<close>

text \<open>
  \<open>ort.InferenceSession(path)\<close>: ONNX Runtime parses the whole file; it raises for a
  missing file, for a directory, for an empty file and for contents it cannot load.
\<close>

definition InferenceSession :: "fs \<Rightarrow> path \<Rightarrow> bool" where
  "InferenceSession f p =
     (case lookup_file f p of None \<Rightarrow> False | Some x \<Rightarrow> 0 < fsize x \<and> ort_ok x)"

definition validate_onnx_model :: "world \<Rightarrow> path \<Rightarrow> bool \<times> world" where
  "validate_onnx_model w model_path =
     (if \<not> path_exists (fsys w) model_path then (False, w)
      else (InferenceSession (fsys w) model_path, emit (OrtSession model_path) w))"

fun remove_each :: "fs \<Rightarrow> path list \<Rightarrow> fs" where
  "remove_each f [] = f"
| "remove_each f (p # ps) =
     remove_each (case os_remove f p of Inr f' \<Rightarrow> f' | Inl e \<Rightarrow> f) ps"

fun clear_caches :: "fs \<Rightarrow> path list \<Rightarrow> bool \<times> fs" where
  "clear_caches f [] = (True, f)"
| "clear_caches f (cache_path # rest) =
     (if path_exists f cache_path then
        (case os_listdir f cache_path of
           Inl e \<Rightarrow> (False, f)
         | Inr names \<Rightarrow>
             clear_caches
               (remove_each f
                  (map (os_path_join cache_path) (filter (\<lambda>n. endswith n ''.onnx'') names)))
               rest)
      else clear_caches f rest)"

definition cache_paths :: "fs \<Rightarrow> path list" where
  "cache_paths f =
     [expanduser f ''~/.insightface/models'',
      expanduser f ''~/.cache/insightface'',
      ''/root/.insightface/models'']"

definition fix_corrupted_model :: "world \<Rightarrow> path \<Rightarrow> bool \<times> world" where
  "fix_corrupted_model w model_path =
     (let f = fsys w
      in if path_exists f model_path then
           (let f1 = (case shutil_copy2 f model_path (model_path @ ''.backup'') of
                        Inr f' \<Rightarrow> f' | Inl e \<Rightarrow> f)
            in case os_remove f1 model_path of
                 Inl e \<Rightarrow> (False, w\<lparr>fsys := f1\<rparr>)
               | Inr f2 \<Rightarrow>
                   (case clear_caches f2 (cache_paths f2) of
                      (ok, f3) \<Rightarrow> (ok, w\<lparr>fsys := f3\<rparr>)))
         else (case clear_caches f (cache_paths f) of (ok, f3) \<Rightarrow> (ok, w\<lparr>fsys := f3\<rparr>)))"

section \<open>Loading the swapper model\<close>

definition possible_paths :: "fs \<Rightarrow> path \<Rightarrow> path list" where
  "possible_paths f model_path =
     [model_path,
      abspath f model_path,
      expanduser f (''~/.insightface/models/'' @ model_path),
      expanduser f (''/root/.insightface/models/'' @ model_path)]"

definition locate :: "fs \<Rightarrow> path \<Rightarrow> path option" where
  "locate f model_path = find (path_exists f) (possible_paths f model_path)"

text \<open>
  \<open>local_model_path and os.path.exists(local_model_path)\<close>: the path, when the test
  holds (\<open>None\<close> and the empty string are false).
\<close>

definition usable :: "fs \<Rightarrow> path option \<Rightarrow> path option" where
  "usable f local_model_path =
     (case local_model_path of
        None \<Rightarrow> None
      | Some p \<Rightarrow> if p \<noteq> [] \<and> path_exists f p then Some p else None)"

definition call_get_model ::
  "env \<Rightarrow> world \<Rightarrow> string \<Rightarrow> bool \<Rightarrow> (exn + swapper option) \<times> world" where
  "call_get_model env w name download =
     (case get_model env (fsys w) name download of
        (r, f') \<Rightarrow> (r, emit (GetModel name download) (w\<lparr>fsys := f'\<rparr>)))"

text \<open>
  The first half of one attempt: validate the file that was found, repair it when it is
  invalid.  The result is the value of \<open>local_model_path\<close> afterwards, or the exception.
\<close>

definition validate_found :: "world \<Rightarrow> path option \<Rightarrow> (exn + path option) \<times> world" where
  "validate_found w local_model_path =
     (case usable (fsys w) local_model_path of
        None \<Rightarrow> (Inr local_model_path, w)
      | Some p \<Rightarrow>
          (case validate_onnx_model w p of
             (True, w1) \<Rightarrow> (Inr local_model_path, w1)
           | (False, w1) \<Rightarrow>
               (case fix_corrupted_model w1 p of
                  (True, w2) \<Rightarrow> (Inr None, w2)
                | (False, w2) \<Rightarrow> (Inl (PyException ''Failed to fix corrupted model''), w2))))"

text \<open>
  One iteration of the \<open>try\<close> block of \<open>load_swapper_model_with_recovery\<close>: the model or
  the exception, the value of \<open>local_model_path\<close> at that point, and the world.
\<close>

definition load_attempt ::
  "env \<Rightarrow> world \<Rightarrow> path \<Rightarrow> nat \<Rightarrow> (exn + swapper) \<times> path option \<times> world" where
  "load_attempt env w0 model_path attempt =
     (let w = emit (LoadAttempt model_path attempt) w0;
          found = locate (fsys w) model_path
      in case validate_found w found of
           (Inl e, w1) \<Rightarrow> (Inl e, found, w1)
         | (Inr local_model_path, w1) \<Rightarrow>
             (case usable (fsys w1) local_model_path of
                Some p \<Rightarrow>
                  (case call_get_model env w1 p False of
                     (Inl e, w2) \<Rightarrow> (Inl e, local_model_path, w2)
                   | (Inr None, w2) \<Rightarrow>
                       (Inl (PyException ''Model loading returned None''), local_model_path, w2)
                   | (Inr (Some m), w2) \<Rightarrow> (Inr m, local_model_path, w2))
              | None \<Rightarrow>
                  (case call_get_model env w1 (splitext_root model_path) True of
                     (Inl e, w2) \<Rightarrow> (Inl e, local_model_path, w2)
                   | (Inr r, w2) \<Rightarrow>
                       (let downloaded =
                              Some (expanduser (fsys w2) (''~/.insightface/models/'' @ model_path))
                        in case r of
                             None \<Rightarrow>
                               (Inl (PyException ''Model loading returned None''), downloaded, w2)
                           | Some m \<Rightarrow> (Inr m, downloaded, w2)))))"

text \<open>
  The \<open>for attempt in range(max_retries)\<close> loop, over the attempts still to make.  A
  failed attempt that is not the last one repairs the path it worked on, or
  \<open>model_path\<close> when it had none; the last one raises.  The loop that ends without a
  \<open>return\<close> yields \<open>None\<close>.
\<close>

fun load_attempts ::
  "env \<Rightarrow> path \<Rightarrow> int \<Rightarrow> nat list \<Rightarrow> world \<Rightarrow> (exn + swapper option) \<times> world" where
  "load_attempts env model_path max_retries [] w = (Inr None, w)"
| "load_attempts env model_path max_retries (attempt # rest) w =
     (case load_attempt env w model_path attempt of
        (Inr m, local_model_path, w1) \<Rightarrow> (Inr (Some m), w1)
      | (Inl e, local_model_path, w1) \<Rightarrow>
          if int attempt < max_retries - 1 then
            load_attempts env model_path max_retries rest
              (snd (fix_corrupted_model w1
                      (case local_model_path of
                         None \<Rightarrow> model_path
                       | Some p \<Rightarrow> if p \<noteq> [] then p else model_path)))
          else
            (Inl (PyException (''Failed to load swapper model after '' @ str_int max_retries
                                 @ '' attempts: '' @ str_exn env e)), w1))"

definition load_swapper_model_with_recovery ::
  "env \<Rightarrow> world \<Rightarrow> path \<Rightarrow> int \<Rightarrow> (exn + swapper option) \<times> world" where
  "load_swapper_model_with_recovery env w model_path max_retries =
     load_attempts env model_path max_retries [0..<nat max_retries] w"

section \<open>The engine cache\<close>

definition model_paths :: "path list" where
  "model_paths = [''inswapper_128.fp16.onnx'', ''inswapper_128.onnx'']"

text \<open>
  The loop over the variants in \<open>get_cached_models\<close>: the value of \<open>swapper_model\<close> when
  the loop ends.  An exception of the loader moves on to the next variant; a return of
  the loader ends the loop.
\<close>

fun load_variants :: "env \<Rightarrow> path list \<Rightarrow> world \<Rightarrow> swapper option \<times> world" where
  "load_variants env [] w = (None, w)"
| "load_variants env (model_path # rest) w =
     (case load_swapper_model_with_recovery env w model_path 3 of
        (Inr m, w1) \<Rightarrow> (m, w1)
      | (Inl e, w1) \<Rightarrow> load_variants env rest w1)"

text \<open>The body of \<open>get_cached_models\<close>, which runs when the cache has no entry.\<close>

definition get_cached_models_body :: "env \<Rightarrow> world \<Rightarrow> (exn + locator \<times> swapper) \<times> world" where
  "get_cached_models_body env w =
     (case FaceAnalysis env (fsys w) of
        (r, f1) \<Rightarrow>
          (let w1 = emit FaceAnalysisInit (w\<lparr>fsys := f1\<rparr>)
           in case r of
                Inl e \<Rightarrow> (Inl e, w1)
              | Inr fa \<Rightarrow>
                  (case load_variants env model_paths w1 of
                     (None, w2) \<Rightarrow>
                       (Inl (PyException ''Failed to load any swapper model variant''), w2)
                   | (Some m, w2) \<Rightarrow> (Inr (fa, m), w2))))"

text \<open>
  The state of the process: the world, the two globals of the module and the entry of
  the \<open>lru_cache\<close> around \<open>get_cached_models\<close>.  \<open>functools.lru_cache\<close> stores the value a
  call returns and nothing when the call raises.
\<close>

record app =
  world :: world
  face_analysis_app :: "locator option"
  swapper_model :: "swapper option"
  cache :: "(locator \<times> swapper) option"

definition get_cached_models :: "env \<Rightarrow> app \<Rightarrow> (exn + locator \<times> swapper) \<times> app" where
  "get_cached_models env a =
     (case cache a of
        Some bundle \<Rightarrow> (Inr bundle, a)
      | None \<Rightarrow>
          (case get_cached_models_body env (world a) of
             (Inr bundle, w1) \<Rightarrow> (Inr bundle, a\<lparr>world := w1, cache := Some bundle\<rparr>)
           | (Inl e, w1) \<Rightarrow> (Inl e, a\<lparr>world := w1\<rparr>)))"

definition cache_clear :: "app \<Rightarrow> app" where
  "cache_clear a = a\<lparr>cache := None\<rparr>"

definition prepare_app :: "env \<Rightarrow> app \<Rightarrow> (exn + locator \<times> swapper) \<times> app" where
  "prepare_app env a =
     (case get_cached_models env a of
        (Inr (fa, sw), a1) \<Rightarrow>
          (Inr (fa, sw), a1\<lparr>face_analysis_app := Some fa, swapper_model := Some sw\<rparr>)
      | (Inl e, a1) \<Rightarrow> (Inl e, a1))"

section \<open>Fetching an image\<close>

text \<open>
  \<open>int(s)\<close> on the text of a header: an optional sign and decimal digits.  (Python also
  accepts blanks around the number and underscores between digits.)
\<close>

definition is_digit :: "char \<Rightarrow> bool" where
  "is_digit c = (c \<in> set ''0123456789'')"

definition digit_val :: "char \<Rightarrow> nat" where
  "digit_val c = length (takeWhile (\<lambda>d. d \<noteq> c) ''0123456789'')"

definition py_int :: "string \<Rightarrow> exn + int" where
  "py_int s =
     (let neg = (take 1 s = ''-'');
          d = (if take 1 s = ''-'' \<or> take 1 s = ''+'' then drop 1 s else s)
      in if d \<noteq> [] \<and> list_all is_digit d
         then Inr ((if neg then - 1 else 1) * int (foldl (\<lambda>a c. 10 * a + digit_val c) 0 d))
         else Inl (PyException ''invalid literal for int() with base 10''))"

definition raise_for_status :: "response \<Rightarrow> exn + unit" where
  "raise_for_status r =
     (if 400 \<le> status_code r \<and> status_code r < 600
      then Inl (RequestException (str_nat (status_code r) @ '' Error''))
      else Inr ())"

text \<open>The check of the \<open>content-length\<close> header; an absent or empty header is skipped.\<close>

definition check_content_length :: "response \<Rightarrow> exn + unit" where
  "check_content_length r =
     (case content_length r of
        None \<Rightarrow> Inr ()
      | Some cl \<Rightarrow>
          if cl = [] then Inr ()
          else (case py_int cl of
                  Inl e \<Rightarrow> Inl e
                | Inr n \<Rightarrow>
                    (case py_truediv n (1024 * 1024) of
                       Inl e \<Rightarrow> Inl e
                     | Inr size_mb \<Rightarrow>
                         if 10 < size_mb
                         then Inl (HTTPException 413
                                (''Image too large: '' @ fmt_2f size_mb @ '' MB (max 10MB)''))
                         else Inr ())))"

text \<open>What \<open>download_image\<close> does with the response, inside its \<open>try\<close>.\<close>

definition process_response :: "env \<Rightarrow> response \<Rightarrow> exn + image" where
  "process_response env r =
     (case raise_for_status r of
        Inl e \<Rightarrow> Inl e
      | Inr u \<Rightarrow>
          (case check_content_length r of
             Inl e \<Rightarrow> Inl e
           | Inr u \<Rightarrow>
               (case Image_open env (content r) of
                  Inl e \<Rightarrow> Inl e
                | Inr img \<Rightarrow>
                    (case (if mode img \<noteq> ''RGB'' then convert_RGB env img else Inr img) of
                       Inl e \<Rightarrow> Inl e
                     | Inr rgb \<Rightarrow> validate_and_resize_image (lanczos env) rgb 1024))))"

text \<open>The two \<open>except\<close> clauses of \<open>download_image\<close>.\<close>

definition download_error :: "env \<Rightarrow> string \<Rightarrow> exn \<Rightarrow> exn" where
  "download_error env url e =
     (case e of
        RequestException m \<Rightarrow>
          HTTPException 400 (''Failed to download image from '' @ url @ '': '' @ m)
      | HTTPException c d \<Rightarrow>
          HTTPException 500 (''Error processing image from '' @ url @ '': ''
                               @ str_HTTPException env c d)
      | PyException m \<Rightarrow>
          HTTPException 500 (''Error processing image from '' @ url @ '': '' @ m))"

text \<open>
  \<open>requests.get\<close> is called without \<open>stream=True\<close>: when it returns a response, the
  whole body has been read (\<open>BodyReceived\<close>, with the number of bytes).
\<close>

definition download_image :: "env \<Rightarrow> world \<Rightarrow> string \<Rightarrow> (exn + image) \<times> world" where
  "download_image env w url =
     (let w1 = emit (HttpRequest url) w
      in case requests_get env url of
           Inl e \<Rightarrow> (Inl (download_error env url e), w1)
         | Inr r \<Rightarrow>
             (let w2 = emit (BodyReceived url (length (content r))) w1
              in case process_response env r of
                   Inl e \<Rightarrow> (Inl (download_error env url e), w2)
                 | Inr image_array \<Rightarrow> (Inr image_array, w2)))"

definition image_to_base64 :: "env \<Rightarrow> image \<Rightarrow> exn + string" where
  "image_to_base64 env image_array =
     (case save_png_b64 env image_array of
        Inl e \<Rightarrow> Inl (HTTPException 500 (''Error converting image to base64: '' @ str_exn env e))
      | Inr b \<Rightarrow> Inr b)"

section \<open>The request pipeline and the endpoints\<close>

record RunPodInput =
  source_url :: string
  target_url :: string
  source_index :: int
  target_index :: int

record RunPodRequest =
  input :: RunPodInput

record RunPodOutput =
  success :: bool
  image_base64 :: "string option"
  message :: string

record RunPodResponse =
  output' :: RunPodOutput

text \<open>
  What a handler gives to the framework: a value, sent with status 200, or an
  \<open>HTTPException\<close>, sent as an error response with its status code.
\<close>

datatype 'a reply = Reply200 'a | ErrorReply nat string

text \<open>The stages of \<open>perform_face_swap_logic\<close> inside its \<open>try\<close>, on initialised engines.\<close>

definition swap_stages ::
  "env \<Rightarrow> locator \<Rightarrow> swapper \<Rightarrow> world \<Rightarrow> string \<Rightarrow> string \<Rightarrow> int \<Rightarrow> int
     \<Rightarrow> (exn + string) \<times> world" where
  "swap_stages env fa sw w src_url tgt_url src_index tgt_index =
     (case download_image env w src_url of
        (Inl e, w1) \<Rightarrow> (Inl e, w1)
      | (Inr source_image, w1) \<Rightarrow>
     (case download_image env w1 tgt_url of
        (Inl e, w2) \<Rightarrow> (Inl e, w2)
      | (Inr target_image, w2) \<Rightarrow>
     (case locator_get env fa source_image of
        Inl e \<Rightarrow> (Inl e, emit Detect w2)
      | Inr source_detections \<Rightarrow>
     (case locator_get env fa target_image of
        Inl e \<Rightarrow> (Inl e, emit Detect (emit Detect w2))
      | Inr target_detections \<Rightarrow>
     (let w4 = emit Detect (emit Detect w2);
          source_faces = sort_faces source_detections;
          target_faces = sort_faces target_detections
      in case get_face source_faces src_index of
           Inl e \<Rightarrow> (Inl e, w4)
         | Inr source_face \<Rightarrow>
     (case get_face target_faces tgt_index of
        Inl e \<Rightarrow> (Inl e, w4)
      | Inr target_face \<Rightarrow>
     (case swapper_get env sw target_image target_face source_face of
        Inl e \<Rightarrow> (Inl e, emit Swap w4)
      | Inr result_image \<Rightarrow>
     (case image_to_base64 env result_image of
        Inl e \<Rightarrow> (Inl e, emit Swap w4)
      | Inr result_base64 \<Rightarrow> (Inr result_base64, emit Swap w4)))))))))"

definition perform_face_swap_logic ::
  "env \<Rightarrow> app \<Rightarrow> string \<Rightarrow> string \<Rightarrow> int \<Rightarrow> int \<Rightarrow> (exn + string) \<times> app" where
  "perform_face_swap_logic env a src_url tgt_url src_index tgt_index =
     (case face_analysis_app a of
        None \<Rightarrow> (Inl (HTTPException 500 ''Models not initialized''), a)
      | Some fa \<Rightarrow>
          (case swapper_model a of
             None \<Rightarrow> (Inl (HTTPException 500 ''Models not initialized''), a)
           | Some sw \<Rightarrow>
               (case swap_stages env fa sw (world a) src_url tgt_url src_index tgt_index of
                  (r, w1) \<Rightarrow> (r, a\<lparr>world := w1\<rparr>))))"

text \<open>\<open>/swap\<close>: an \<open>HTTPException\<close> goes to the framework, anything else becomes a 500.\<close>

definition swap_faces :: "env \<Rightarrow> app \<Rightarrow> RunPodInput \<Rightarrow> RunPodOutput reply \<times> app" where
  "swap_faces env a request =
     (case perform_face_swap_logic env a (source_url request) (target_url request)
             (source_index request) (target_index request) of
        (Inr result_base64, a1) \<Rightarrow>
          (Reply200 \<lparr>success = True, image_base64 = Some result_base64,
                     message = ''Face swap completed successfully''\<rparr>, a1)
      | (Inl (HTTPException c d), a1) \<Rightarrow> (ErrorReply c d, a1)
      | (Inl (RequestException m), a1) \<Rightarrow> (ErrorReply 500 (''Face swap failed: '' @ m), a1)
      | (Inl (PyException m), a1) \<Rightarrow> (ErrorReply 500 (''Face swap failed: '' @ m), a1))"

text \<open>\<open>/runsync\<close>: both \<open>except\<close> clauses return a response.\<close>

definition runsync_face_swap :: "env \<Rightarrow> app \<Rightarrow> RunPodRequest \<Rightarrow> RunPodResponse reply \<times> app" where
  "runsync_face_swap env a request =
     (let input_data = input request
      in case perform_face_swap_logic env a (source_url input_data) (target_url input_data)
                (source_index input_data) (target_index input_data) of
           (Inr result_base64, a1) \<Rightarrow>
             (Reply200 \<lparr>output' = \<lparr>success = True, image_base64 = Some result_base64,
                                   message = ''Face swap completed successfully''\<rparr>\<rparr>, a1)
         | (Inl (HTTPException c d), a1) \<Rightarrow>
             (Reply200 \<lparr>output' = \<lparr>success = False, image_base64 = None, message = d\<rparr>\<rparr>, a1)
         | (Inl (RequestException m), a1) \<Rightarrow>
             (Reply200 \<lparr>output' = \<lparr>success = False, image_base64 = None,
                                   message = ''Face swap failed: '' @ m\<rparr>\<rparr>, a1)
         | (Inl (PyException m), a1) \<Rightarrow>
             (Reply200 \<lparr>output' = \<lparr>success = False, image_base64 = None,
                                   message = ''Face swap failed: '' @ m\<rparr>\<rparr>, a1))"

text \<open>\<open>/fix-model\<close>: the reply is a dictionary with \<open>success\<close> and \<open>message\<close>.\<close>

definition fix_model_endpoint :: "app \<Rightarrow> (bool \<times> string) \<times> app" where
  "fix_model_endpoint a =
     (case fix_corrupted_model (world a) ''inswapper_128.onnx'' of
        (True, w1) \<Rightarrow>
          ((True, ''Model fix completed. Restart the application to reload models.''),
           (cache_clear (a\<lparr>world := w1\<rparr>))\<lparr>face_analysis_app := None, swapper_model := None\<rparr>)
      | (False, w1) \<Rightarrow> ((False, ''Model fix failed''), a\<lparr>world := w1\<rparr>))"

section \<open>Observations on traces, and a sample installation\<close>

text \<open>The number of attempts a trace records for the variant \<open>p\<close>.\<close>

definition attempts_on :: "path \<Rightarrow> event list \<Rightarrow> nat" where
  "attempts_on p evs =
     length (filter (\<lambda>ev. case ev of LoadAttempt q k \<Rightarrow> q = p | _ \<Rightarrow> False) evs)"

text \<open>
  A small installation on which the theorems below are instantiated: an empty disk, a
  locator that finds three faces, a model zoo whose reduced-precision variant never
  loads, a server that answers with a small picture.
\<close>

definition sample_fs :: fs where
  "sample_fs = \<lparr>files = [], dirs = [], nowrite = [], cwd = ''/app'', home = ''/root''\<rparr>"

definition sample_world :: world where
  "sample_world = \<lparr>fsys = sample_fs, trace = []\<rparr>"

definition sample_image :: image where
  "sample_image = \<lparr>mode = ''RGB'', height = 480, width = 640, pixels = [1, 2, 3]\<rparr>"

definition sample_faces :: "face list" where
  "sample_faces =
     [\<lparr>bbox = (30, 0, 40, 9), payload = 0\<rparr>,
      \<lparr>bbox = (10, 0, 20, 9), payload = 1\<rparr>,
      \<lparr>bbox = (20, 0, 30, 9), payload = 2\<rparr>]"

definition sample_env :: env where
  "sample_env =
     \<lparr>FaceAnalysis = (\<lambda>f. (Inr (Locator 0), f)),
      get_model = (\<lambda>f name download.
         if endswith name ''.fp16.onnx'' \<or> endswith name ''.fp16''
         then (Inl (PyException ''INVALID_PROTOBUF''), f)
         else (Inr (Some (Swapper 1)), f)),
      requests_get = (\<lambda>url. Inr \<lparr>status_code = 200, content_length = None,
                                  content = [1, 2, 3]\<rparr>),
      Image_open = (\<lambda>bytes. Inr sample_image),
      convert_RGB = (\<lambda>img. Inr (img\<lparr>mode := ''RGB''\<rparr>)),
      lanczos = (\<lambda>img w h. []),
      locator_get = (\<lambda>loc img. Inr sample_faces),
      swapper_get = (\<lambda>sw img target source. Inr img),
      save_png_b64 = (\<lambda>img. Inr ''iVBORw0KGgo=''),
      str_HTTPException = (\<lambda>c d. str_nat c @ '': '' @ d)\<rparr>"

definition sample_app :: app where
  "sample_app = \<lparr>world = sample_world, face_analysis_app = None, swapper_model = None,
                  cache = None\<rparr>"

definition ready_app :: app where
  "ready_app = \<lparr>world = sample_world, face_analysis_app = Some (Locator 0),
                 swapper_model = Some (Swapper 1), cache = Some (Locator 0, Swapper 1)\<rparr>"

text \<open>The sample installation without the model pack of the locator.\<close>

definition no_locator_env :: env where
  "no_locator_env = sample_env\<lparr>FaceAnalysis := (\<lambda>f. (Inl (PyException ''buffalo_l missing''), f))\<rparr>"

text \<open>A server that sends a picture of 20 MB and says so.\<close>

definition oversize_response :: response where
  "oversize_response = \<lparr>status_code = 200, content_length = Some ''20971520'',
                          content = replicate 20971520 0\<rparr>"

definition oversize_env :: env where
  "oversize_env = sample_env\<lparr>requests_get := (\<lambda>url. Inr oversize_response)\<rparr>"

section \<open>Face selection\<close>

lemma py_index_in_range:
  "0 \<le> i \<Longrightarrow> i < int (length xs) \<Longrightarrow> py_index xs i = Inr (xs ! nat i)"
  by (simp add: py_index_def)

lemma get_face_in_range:
  assumes "1 \<le> i" and "i \<le> int (length faces)"
  shows "get_face faces i = Inr (faces ! nat (i - 1))"
proof -
  have "py_index faces (i - 1) = Inr (faces ! nat (i - 1))"
    using assms by (intro py_index_in_range) auto
  then show ?thesis
    using assms by (simp add: get_face_def)
qed

lemma get_face_out_of_range:
  assumes "i < 1 \<or> int (length faces) < i"
  shows "get_face faces i = Inl (HTTPException 400 (face_message (length faces) i))"
  using assms by (auto simp: get_face_def)

lemma face_message_3_5:
  "face_message 3 5 = ''The image includes only 3 faces, however, you asked for face 5''"
  by (simp add: face_message_def str_int_def str_nat.simps digit_char_def)

text \<open>
  Claim C1.  On the faces of an image ordered from left to right (\<open>sort_faces\<close>: ascending
  in the left edge of the bounding box, a permutation of the detections), \<open>get_face\<close> with
  an index \<open>i\<close> from 1 to the number \<open>N\<close> of faces returns the face at position \<open>i\<close> from
  the left.  For every other index it raises the HTTP 400 error whose message is
  "The image includes only N faces, however, you asked for face i", which carries both
  numbers; for 3 faces and index 5 this is the message with 3 and 5.
\<close>

theorem get_face_selects_ith_from_left:
  fixes detections :: "face list" and i :: int
  defines "faces \<equiv> sort_faces detections"
  defines "N \<equiv> length faces"
  shows "sorted (map bbox_0 faces) \<and> mset faces = mset detections \<and>
         get_face faces i =
           (if 1 \<le> i \<and> i \<le> int N then Inr (faces ! nat (i - 1))
            else Inl (HTTPException 400
                   (''The image includes only '' @ str_nat N
                      @ '' faces, however, you asked for face '' @ str_int i))) \<and>
         (N = 3 \<longrightarrow> get_face faces 5 = Inl (HTTPException 400
             ''The image includes only 3 faces, however, you asked for face 5''))"
proof -
  have "sorted (map bbox_0 faces)" and "mset faces = mset detections"
    by (simp_all add: faces_def sort_faces_def)
  moreover have "get_face faces i = Inr (faces ! nat (i - 1))" if "1 \<le> i \<and> i \<le> int N"
    using that by (simp add: get_face_in_range N_def)
  moreover have "get_face faces i = Inl (HTTPException 400
      (''The image includes only '' @ str_nat N
         @ '' faces, however, you asked for face '' @ str_int i))"
    if "\<not> (1 \<le> i \<and> i \<le> int N)"
    using that get_face_out_of_range [of i faces] by (auto simp: N_def face_message_def)
  moreover have "get_face faces 5 = Inl (HTTPException 400
      ''The image includes only 3 faces, however, you asked for face 5'')" if "N = 3"
    using that get_face_out_of_range [of 5 faces] face_message_3_5 by (simp add: N_def)
  ultimately show ?thesis by simp
qed

theorem get_face_selects_ith_from_left_witness:
  "get_face (sort_faces [\<lparr>bbox = (30, 0, 40, 9), payload = 0\<rparr>,
                         \<lparr>bbox = (10, 0, 20, 9), payload = 1\<rparr>,
                         \<lparr>bbox = (20, 0, 30, 9), payload = 2\<rparr>]) 2
     = Inr \<lparr>bbox = (20, 0, 30, 9), payload = 2\<rparr> \<and>
   get_face (sort_faces [\<lparr>bbox = (30, 0, 40, 9), payload = 0\<rparr>,
                         \<lparr>bbox = (10, 0, 20, 9), payload = 1\<rparr>,
                         \<lparr>bbox = (20, 0, 30, 9), payload = 2\<rparr>]) 5
     = Inl (HTTPException 400
         ''The image includes only 3 faces, however, you asked for face 5'')"
  using get_face_selects_ith_from_left
    [of "[\<lparr>bbox = (30, 0, 40, 9), payload = 0\<rparr>,
          \<lparr>bbox = (10, 0, 20, 9), payload = 1\<rparr>,
          \<lparr>bbox = (20, 0, 30, 9), payload = 2\<rparr>]" 2]
  by (simp add: sort_faces_def bbox_0_def)

section \<open>Traces of the loaders\<close>

lemma trace_emit [simp]: "trace (emit ev w) = trace w @ [ev]"
  by (simp add: emit_def)

lemma fsys_emit [simp]: "fsys (emit ev w) = fsys w"
  by (simp add: emit_def)

lemma attempts_on_simps [simp]:
  "attempts_on p [] = 0"
  "attempts_on p (xs @ ys) = attempts_on p xs + attempts_on p ys"
  "attempts_on p (LoadAttempt q k # xs) = (if q = p then 1 else 0) + attempts_on p xs"
  "attempts_on p (OrtSession q # xs) = attempts_on p xs"
  "attempts_on p (GetModel n d # xs) = attempts_on p xs"
  "attempts_on p (FaceAnalysisInit # xs) = attempts_on p xs"
  by (simp_all add: attempts_on_def)

lemma validate_onnx_model_trace:
  "validate_onnx_model w p = (r, w') \<Longrightarrow>
     trace w' = trace w \<or> trace w' = trace w @ [OrtSession p]"
  by (auto simp: validate_onnx_model_def split: if_splits)

lemma fix_corrupted_model_trace [simp]:
  "trace (snd (fix_corrupted_model w p)) = trace w"
  by (simp add: fix_corrupted_model_def Let_def split: sum.splits prod.splits)

lemma fix_corrupted_model_trace':
  "fix_corrupted_model w p = (r, w') \<Longrightarrow> trace w' = trace w"
  using fix_corrupted_model_trace [of w p] by simp

lemma call_get_model_trace:
  "call_get_model env w n d = (r, w') \<Longrightarrow> trace w' = trace w @ [GetModel n d]"
  by (auto simp: call_get_model_def split: prod.splits)

lemma validate_found_trace:
  "validate_found w l = (r, w') \<Longrightarrow>
     \<exists>evs. trace w' = trace w @ evs \<and> (\<forall>q. attempts_on q evs = 0)"
  by (auto simp: validate_found_def split: option.splits prod.splits bool.splits
       dest!: validate_onnx_model_trace fix_corrupted_model_trace')

lemma load_attempt_trace:
  assumes "load_attempt env w p k = (r, l, w')"
  shows "\<exists>evs. trace w' = trace w @ LoadAttempt p k # evs \<and> (\<forall>q. attempts_on q evs = 0)"
  using assms
  by (auto simp: load_attempt_def Let_def split: option.splits prod.splits sum.splits
      dest!: validate_found_trace call_get_model_trace)

lemma load_attempts_trace:
  "load_attempts env p mr ks w = (r, w') \<Longrightarrow>
     \<exists>evs. trace w' = trace w @ evs \<and> attempts_on p evs \<le> length ks \<and>
           (\<forall>q. q \<noteq> p \<longrightarrow> attempts_on q evs = 0)"
proof (induction ks arbitrary: w)
  case Nil
  then show ?case by simp
next
  case (Cons k ks)
  obtain r1 l1 w1 where la: "load_attempt env w p k = (r1, l1, w1)"
    by (cases "load_attempt env w p k") auto
  from load_attempt_trace [OF la] obtain evs1 where
    t1: "trace w1 = trace w @ LoadAttempt p k # evs1" and z1: "\<forall>q. attempts_on q evs1 = 0"
    by blast
  show ?case
  proof (cases "isl r1 \<and> int k < mr - 1")
    case True
    then obtain e where r1: "r1 = Inl e" by (cases r1) auto
    define w2 where "w2 = snd (fix_corrupted_model w1
        (case l1 of None \<Rightarrow> p | Some q \<Rightarrow> if q \<noteq> [] then q else p))"
    have rec: "load_attempts env p mr ks w2 = (r, w')"
      using Cons.prems la r1 True by (simp add: w2_def)
    from Cons.IH [OF rec] obtain evs2 where
      t2: "trace w' = trace w2 @ evs2" and c2: "attempts_on p evs2 \<le> length ks"
      and z2: "\<forall>q. q \<noteq> p \<longrightarrow> attempts_on q evs2 = 0" by blast
    have "trace w2 = trace w1" by (simp add: w2_def)
    then have "trace w' = trace w @ (LoadAttempt p k # evs1 @ evs2)"
      using t1 t2 by simp
    moreover have "attempts_on p (LoadAttempt p k # evs1 @ evs2) \<le> length (k # ks)"
      using z1 c2 by simp
    moreover have "\<forall>q. q \<noteq> p \<longrightarrow> attempts_on q (LoadAttempt p k # evs1 @ evs2) = 0"
      using z1 z2 by simp
    ultimately show ?thesis by blast
  next
    case False
    then have "w' = w1"
      using Cons.prems la by (auto split: sum.splits if_splits)
    then have "trace w' = trace w @ (LoadAttempt p k # evs1)" using t1 by simp
    moreover have "attempts_on p (LoadAttempt p k # evs1) \<le> length (k # ks)"
      using z1 by simp
    moreover have "\<forall>q. q \<noteq> p \<longrightarrow> attempts_on q (LoadAttempt p k # evs1) = 0"
      using z1 by simp
    ultimately show ?thesis by blast
  qed
qed

lemma load_swapper_model_with_recovery_trace:
  assumes "load_swapper_model_with_recovery env w p mr = (r, w')"
  shows "\<exists>evs. trace w' = trace w @ evs \<and> int (attempts_on p evs) \<le> max 0 mr \<and>
           (\<forall>q. q \<noteq> p \<longrightarrow> attempts_on q evs = 0)"
proof -
  from load_attempts_trace [OF assms [unfolded load_swapper_model_with_recovery_def]]
  obtain evs where "trace w' = trace w @ evs" "attempts_on p evs \<le> length [0..<nat mr]"
    "\<forall>q. q \<noteq> p \<longrightarrow> attempts_on q evs = 0" by blast
  then show ?thesis by (intro exI [of _ evs]) auto
qed

lemma load_variants_trace:
  "load_variants env ps w = (r, w') \<Longrightarrow> \<exists>evs. trace w' = trace w @ evs"
proof (induction ps arbitrary: w)
  case Nil
  then show ?case by simp
next
  case (Cons p ps)
  obtain r1 w1 where l: "load_swapper_model_with_recovery env w p 3 = (r1, w1)"
    by (cases "load_swapper_model_with_recovery env w p 3") auto
  from load_swapper_model_with_recovery_trace [OF l] obtain evs1 where
    t1: "trace w1 = trace w @ evs1" by blast
  show ?case
  proof (cases r1)
    case (Inl e)
    then have "load_variants env ps w1 = (r, w')" using Cons.prems l by simp
    from Cons.IH [OF this] t1 show ?thesis by auto
  next
    case (Inr m)
    then have "w' = w1" using Cons.prems l by simp
    then show ?thesis using t1 by auto
  qed
qed

lemma get_cached_models_body_trace:
  "\<exists>evs. trace (snd (get_cached_models_body env w)) = trace w @ FaceAnalysisInit # evs"
proof -
  obtain r f1 where fa: "FaceAnalysis env (fsys w) = (r, f1)"
    by (cases "FaceAnalysis env (fsys w)") auto
  define w1 where "w1 = emit FaceAnalysisInit (w\<lparr>fsys := f1\<rparr>)"
  have t1: "trace w1 = trace w @ [FaceAnalysisInit]" by (simp add: w1_def)
  show ?thesis
  proof (cases r)
    case (Inl e)
    then show ?thesis using fa by (simp add: get_cached_models_body_def)
  next
    case (Inr loc)
    obtain m w2 where lv: "load_variants env model_paths w1 = (m, w2)"
      by (cases "load_variants env model_paths w1") auto
    from load_variants_trace [OF lv] obtain evs where "trace w2 = trace w1 @ evs" by blast
    then show ?thesis
      using fa Inr lv t1 by (cases m) (simp_all add: get_cached_models_body_def w1_def [symmetric])
  qed
qed

section \<open>Images within the cap\<close>

text \<open>
  Claim C10.  An image whose longer side is at most the cap comes back from
  \<open>validate_and_resize_image\<close> as it went in: no exception, the same array, nothing
  resampled.  Applying the function to its own result therefore gives the same result.
\<close>

theorem resize_within_bounds_is_identity:
  assumes "max (int (height image_array)) (int (width image_array)) \<le> max_dimension"
  shows "validate_and_resize_image resample image_array max_dimension = Inr image_array \<and>
         (case validate_and_resize_image resample image_array max_dimension of
            Inl e \<Rightarrow> Inl e
          | Inr once \<Rightarrow> validate_and_resize_image resample once max_dimension)
           = validate_and_resize_image resample image_array max_dimension"
proof -
  have "\<not> max_dimension < max (int (height image_array)) (int (width image_array))"
    using assms by linarith
  then have "validate_and_resize_image resample image_array max_dimension = Inr image_array"
    by (simp add: validate_and_resize_image_def Let_def)
  then show ?thesis by simp
qed

theorem resize_within_bounds_is_identity_witness:
  "max (int (height sample_image)) (int (width sample_image)) \<le> 1024 \<and>
   validate_and_resize_image (lanczos sample_env) sample_image 1024 = Inr sample_image"
proof -
  have h: "max (int (height sample_image)) (int (width sample_image)) \<le> 1024"
    by (simp add: sample_image_def)
  from resize_within_bounds_is_identity [OF h] h show ?thesis by blast
qed

section \<open>The cache of engines\<close>

text \<open>
  Claim C3.  \<open>get_cached_models\<close> keeps a success and never a failure.  With an entry
  in the cache, a call returns that entry and changes nothing: no initialisation runs.
  A call that succeeds leaves its result in the cache, so the next call returns the same
  pair of engines.  A call that fails with an empty cache leaves the cache empty, and the
  next call runs the whole body again, starting with the initialisation of the locator.
\<close>

theorem get_cached_models_memoizes_success_only:
  "(cache a = Some engines \<longrightarrow> get_cached_models env a = (Inr engines, a)) \<and>
   (get_cached_models env a = (Inr engines, a1) \<longrightarrow>
      cache a1 = Some engines \<and> get_cached_models env a1 = (Inr engines, a1)) \<and>
   (cache a = None \<and> get_cached_models env a = (Inl e, a1) \<longrightarrow>
      cache a1 = None \<and>
      get_cached_models env a1 =
        (case get_cached_models_body env (world a1) of
           (Inr b, w2) \<Rightarrow> (Inr b, a1\<lparr>world := w2, cache := Some b\<rparr>)
         | (Inl e2, w2) \<Rightarrow> (Inl e2, a1\<lparr>world := w2\<rparr>)) \<and>
      (\<exists>evs. trace (world (snd (get_cached_models env a1)))
                = trace (world a1) @ FaceAnalysisInit # evs))"
proof (intro conjI impI)
  show "get_cached_models env a = (Inr engines, a)" if "cache a = Some engines"
    using that by (simp add: get_cached_models_def)
next
  assume ok: "get_cached_models env a = (Inr engines, a1)"
  then show c: "cache a1 = Some engines"
    by (auto simp: get_cached_models_def split: option.splits prod.splits sum.splits)
  then show "get_cached_models env a1 = (Inr engines, a1)"
    by (simp add: get_cached_models_def)
next
  assume h: "cache a = None \<and> get_cached_models env a = (Inl e, a1)"
  then show c: "cache a1 = None"
    by (auto simp: get_cached_models_def split: option.splits prod.splits sum.splits)
  then show eq: "get_cached_models env a1 =
        (case get_cached_models_body env (world a1) of
           (Inr b, w2) \<Rightarrow> (Inr b, a1\<lparr>world := w2, cache := Some b\<rparr>)
         | (Inl e2, w2) \<Rightarrow> (Inl e2, a1\<lparr>world := w2\<rparr>))"
    by (simp add: get_cached_models_def)
  have "world (snd (get_cached_models env a1)) = snd (get_cached_models_body env (world a1))"
    unfolding eq by (simp split: prod.splits sum.splits)
  then show "\<exists>evs. trace (world (snd (get_cached_models env a1)))
                = trace (world a1) @ FaceAnalysisInit # evs"
    using get_cached_models_body_trace [of env "world a1"] by simp
qed

theorem get_cached_models_memoizes_success_only_witness:
  "cache ready_app = Some (Locator 0, Swapper 1) \<and>
   get_cached_models no_locator_env ready_app = (Inr (Locator 0, Swapper 1), ready_app) \<and>
   (let first = get_cached_models sample_env sample_app
    in fst first = Inr (Locator 0, Swapper 1) \<and>
       get_cached_models no_locator_env (snd first) = (Inr (Locator 0, Swapper 1), snd first)) \<and>
   (let failed = get_cached_models no_locator_env sample_app
    in cache sample_app = None \<and> fst failed = Inl (PyException ''buffalo_l missing'') \<and>
       cache (snd failed) = None \<and>
       fst (get_cached_models sample_env (snd failed)) = Inr (Locator 0, Swapper 1))"
proof -
  have c: "cache ready_app = Some (Locator 0, Swapper 1)"
    by (simp add: ready_app_def)
  have r: "get_cached_models no_locator_env ready_app = (Inr (Locator 0, Swapper 1), ready_app)"
    using get_cached_models_memoizes_success_only
      [where a = ready_app and engines = "(Locator 0, Swapper 1)" and env = no_locator_env] c
    by blast
  define first where "first = get_cached_models sample_env sample_app"
  have f1: "fst first = Inr (Locator 0, Swapper 1)"
    unfolding first_def by code_simp
  then have "get_cached_models sample_env sample_app = (Inr (Locator 0, Swapper 1), snd first)"
    by (simp add: first_def prod_eq_iff)
  then have c1: "cache (snd first) = Some (Locator 0, Swapper 1)"
    using get_cached_models_memoizes_success_only
      [where a = sample_app and engines = "(Locator 0, Swapper 1)" and env = sample_env
         and ?a1.0 = "snd first"]
    by blast
  have f2: "get_cached_models no_locator_env (snd first) = (Inr (Locator 0, Swapper 1), snd first)"
    using get_cached_models_memoizes_success_only
      [where a = "snd first" and engines = "(Locator 0, Swapper 1)" and env = no_locator_env] c1
    by blast
  define failed where "failed = get_cached_models no_locator_env sample_app"
  have n: "cache sample_app = None" by (simp add: sample_app_def)
  have g1: "fst failed = Inl (PyException ''buffalo_l missing'')"
    unfolding failed_def by code_simp
  then have "get_cached_models no_locator_env sample_app
               = (Inl (PyException ''buffalo_l missing''), snd failed)"
    by (simp add: failed_def prod_eq_iff)
  with n have g2: "cache (snd failed) = None"
    using get_cached_models_memoizes_success_only
      [where a = sample_app and env = no_locator_env and ?a1.0 = "snd failed"
         and e = "PyException ''buffalo_l missing''"]
    by blast
  have g3: "fst (get_cached_models sample_env (snd failed)) = Inr (Locator 0, Swapper 1)"
    unfolding failed_def by code_simp
  show ?thesis
    using c r f1 f2 n g1 g2 g3 by (simp add: Let_def first_def failed_def)
qed

section \<open>The serverless endpoint\<close>

text \<open>
  Claim C4.  \<open>/runsync\<close> always hands a response to the framework, sent with status 200,
  whatever the pipeline does.  When the pipeline fails (an \<open>HTTPException\<close> for bad input
  or a face index out of range, or any other exception) the output has \<open>success\<close> false,
  no \<open>image_base64\<close>, and a message: the detail of the \<open>HTTPException\<close>, or
  "Face swap failed: " followed by the text of the exception.
\<close>

theorem runsync_never_transport_error:
  "\<exists>out a1. runsync_face_swap env a request = (Reply200 \<lparr>output' = out\<rparr>, a1) \<and>
     (case fst (perform_face_swap_logic env a (source_url (input request))
                  (target_url (input request)) (source_index (input request))
                  (target_index (input request))) of
        Inr png \<Rightarrow> success out \<and> image_base64 out = Some png
      | Inl e \<Rightarrow> \<not> success out \<and> image_base64 out = None \<and>
          message out = (case e of HTTPException c d \<Rightarrow> d
                         | RequestException m \<Rightarrow> ''Face swap failed: '' @ m
                         | PyException m \<Rightarrow> ''Face swap failed: '' @ m))"
  by (auto simp: runsync_face_swap_def Let_def split: prod.splits sum.splits exn.splits)

theorem runsync_never_transport_error_witness:
  "\<exists>a1. runsync_face_swap sample_env ready_app
          \<lparr>input = \<lparr>source_url = ''s'', target_url = ''t'', source_index = 0, target_index = 1\<rparr>\<rparr>
        = (Reply200 \<lparr>output' = \<lparr>success = False, image_base64 = None,
             message = ''The image includes only 3 faces, however, you asked for face 0''\<rparr>\<rparr>, a1)"
proof -
  let ?req = "\<lparr>input = \<lparr>source_url = ''s'', target_url = ''t'', source_index = 0, target_index = 1\<rparr>\<rparr>"
  have p: "fst (perform_face_swap_logic sample_env ready_app ''s'' ''t'' 0 1)
             = Inl (HTTPException 400
                 ''The image includes only 3 faces, however, you asked for face 0'')"
    by code_simp
  from runsync_never_transport_error [of sample_env ready_app ?req]
  obtain out a1 where
    run: "runsync_face_swap sample_env ready_app ?req = (Reply200 \<lparr>output' = out\<rparr>, a1)"
    and o: "\<not> success out \<and> image_base64 out = None \<and>
            message out = ''The image includes only 3 faces, however, you asked for face 0''"
    using p by auto
  from o have "out = \<lparr>success = False, image_base64 = None,
      message = ''The image includes only 3 faces, however, you asked for face 0''\<rparr>"
    by (cases out) simp
  with run show ?thesis by blast
qed

section \<open>Rounding to a double\<close>

text \<open>
  The rounding \<open>fl\<close> moves a number that is not negative by at most the fraction
  \<open>2^-53\<close> of itself.
\<close>

lemma pow2_powi: "pow2 k = 2 powi k"
  by (simp add: pow2_def power_int_def inverse_eq_divide power_one_over)

lemma pow2_pos [simp]: "0 < pow2 k"
  by (simp add: pow2_def)

lemma pow2_add: "pow2 (a + b) = pow2 a * pow2 b"
  by (simp add: pow2_powi power_int_add)

lemma pow2_nat [simp]: "pow2 (int n) = 2 ^ n"
  by (simp add: pow2_def)

lemma pow2_diff_nat: "(2::rat) ^ m / 2 ^ n = pow2 (int m - int n)"
  by (simp add: pow2_powi power_int_diff)

lemma pow2_52: "pow2 52 = 2 ^ 52"
  by (simp add: pow2_def)

lemma flog2_bounds:
  assumes "0 < x"
  shows "pow2 (flog2 x) \<le> x \<and> x < pow2 (flog2 x + 1)"
proof -
  obtain a b where q: "quotient_of x = (a, b)" by (cases "quotient_of x") auto
  have b: "0 < b" using q by (rule quotient_of_denom_pos)
  have x: "x = of_int a / of_int b" using q by (rule quotient_of_div)
  have a: "0 < a" using assms b x by (simp add: zero_less_divide_iff)
  define la lb where "la = nat (bitlen a)" and "lb = nat (bitlen b)"
  have la1: "1 \<le> la" and lb1: "1 \<le> lb"
    using a b bitlen_eq_zero_iff [of a] bitlen_eq_zero_iff [of b] bitlen_nonneg [of a] bitlen_nonneg [of b]
    by (auto simp: la_def lb_def)
  have ba: "2 ^ (la - 1) \<le> a" "a < 2 ^ la"
    using bitlen_bounds [OF a] la1 by (auto simp: la_def nat_diff_distrib)
  have bb: "2 ^ (lb - 1) \<le> b" "b < 2 ^ lb"
    using bitlen_bounds [OF b] lb1 by (auto simp: lb_def nat_diff_distrib)
  have ra: "(2::rat) ^ (la - 1) \<le> of_int a" "(of_int a :: rat) < 2 ^ la"
    using ba by (metis of_int_le_iff of_int_numeral of_int_power, metis of_int_less_iff of_int_numeral of_int_power)
  have rb: "(2::rat) ^ (lb - 1) \<le> of_int b" "(of_int b :: rat) < 2 ^ lb"
    using bb by (metis of_int_le_iff of_int_numeral of_int_power, metis of_int_less_iff of_int_numeral of_int_power)
  define k where "k = bitlen a - bitlen b"
  have k: "k = int la - int lb"
    using bitlen_nonneg [of a] bitlen_nonneg [of b] by (simp add: k_def la_def lb_def)
  have bpos: "(0::rat) < of_int b" using b by simp
  have up: "x < pow2 (k + 1)"
  proof -
    have "x < 2 ^ la / of_int b" unfolding x using ra(2) bpos by (simp add: divide_strict_right_mono)
    also have "\<dots> \<le> 2 ^ la / 2 ^ (lb - 1)" using rb(1) by (simp add: frac_le)
    also have "\<dots> = pow2 (int la - int (lb - 1))" by (rule pow2_diff_nat)
    also have "int la - int (lb - 1) = k + 1" using lb1 k by simp
    finally show ?thesis .
  qed
  have lo: "pow2 (k - 1) \<le> x"
  proof -
    have "k - 1 = int (la - 1) - int lb" using la1 k by linarith
    then have "pow2 (k - 1) = pow2 (int (la - 1) - int lb)" by (simp only:)
    also have "\<dots> = 2 ^ (la - 1) / 2 ^ lb" by (rule pow2_diff_nat [symmetric])
    also have "\<dots> \<le> of_int a / 2 ^ lb" using ra(1) by (simp add: divide_right_mono)
    also have "\<dots> \<le> of_int a / of_int b" using rb(2) a bpos by (simp add: frac_le)
    finally show ?thesis unfolding x .
  qed
  have fl: "flog2 x = (if pow2 k \<le> x then k else k - 1)"
    by (simp add: flog2_def q k_def Let_def)
  show ?thesis
  proof (cases "pow2 k \<le> x")
    case True
    then show ?thesis using up fl by simp
  next
    case False
    then show ?thesis using lo fl by simp
  qed
qed

lemma round_half_even_error: "\<bar>of_int (round_half_even q) - q\<bar> \<le> 1 / 2"
proof -
  have "of_int \<lfloor>q\<rfloor> \<le> q" "q < of_int \<lfloor>q\<rfloor> + 1" by linarith+
  then show ?thesis
    by (auto simp: round_half_even_def Let_def abs_le_iff)
qed

lemma fl_pos_error:
  assumes "0 < x"
  shows "\<bar>fl_pos x - x\<bar> \<le> x / 2 ^ 53"
proof -
  define e where "e = flog2 x"
  define u where "u = pow2 (e - 52)"
  have upos: "0 < u" by (simp add: u_def)
  have ue: "pow2 e = u * 2 ^ 52"
    using pow2_add [of "e - 52" 52] by (simp add: u_def pow2_52)
  have lo: "pow2 e \<le> x" using flog2_bounds [OF assms] by (simp add: e_def)
  define n where "n = round_half_even (x / u)"
  have f: "fl_pos x = of_int n * u" by (simp add: fl_pos_def Let_def n_def u_def e_def)
  have "\<bar>of_int n - x / u\<bar> \<le> 1 / 2" unfolding n_def by (rule round_half_even_error)
  then have "\<bar>of_int n - x / u\<bar> * u \<le> (1 / 2) * u"
    using upos by (simp add: mult_right_mono)
  moreover have "\<bar>of_int n - x / u\<bar> * u = \<bar>of_int n * u - x\<bar>"
  proof -
    have "\<bar>of_int n - x / u\<bar> * u = \<bar>(of_int n - x / u) * u\<bar>"
      using upos by (simp add: abs_mult)
    also have "(of_int n - x / u) * u = of_int n * u - x"
      using upos by (simp add: left_diff_distrib)
    finally show ?thesis .
  qed
  ultimately have "\<bar>fl_pos x - x\<bar> \<le> u / 2" by (simp add: f)
  also have "u / 2 = pow2 e / 2 ^ 53" by (simp add: ue)
  also have "\<dots> \<le> x / 2 ^ 53" using lo by (simp add: divide_right_mono)
  finally show ?thesis .
qed

lemma fl_error:
  assumes "0 \<le> x"
  shows "\<bar>fl x - x\<bar> \<le> x / 2 ^ 53"
  using assms fl_pos_error [of x] by (cases "x = 0") (auto simp: fl_def)

lemma fl_lower: "0 \<le> x \<Longrightarrow> x * (1 - 1 / 2 ^ 53) \<le> fl x"
proof -
  assume "0 \<le> x"
  then have "x - fl x \<le> x / 2 ^ 53" using fl_error [of x] by linarith
  then show ?thesis by (simp add: algebra_simps)
qed

lemma fl_upper: "0 \<le> x \<Longrightarrow> fl x \<le> x * (1 + 1 / 2 ^ 53)"
proof -
  assume "0 \<le> x"
  then have "fl x - x \<le> x / 2 ^ 53" using fl_error [of x] by linarith
  then show ?thesis by (simp add: algebra_simps)
qed

lemma fl_nonneg: "0 \<le> x \<Longrightarrow> 0 \<le> fl x"
proof -
  assume x: "0 \<le> x"
  have "0 \<le> x * (1 - 1 / 2 ^ 53)" using x by simp
  with fl_lower [OF x] show ?thesis by linarith
qed

section \<open>The pipeline and the face index\<close>

lemma download_image_trace:
  assumes "download_image env w url = (r, w')"
  shows "fsys w' = fsys w \<and>
         (trace w' = trace w @ [HttpRequest url] \<or>
          (\<exists>n. trace w' = trace w @ [HttpRequest url, BodyReceived url n]))"
  using assms
  by (auto simp: download_image_def Let_def split: sum.splits)

lemma length_sort_faces [simp]: "length (sort_faces xs) = length xs"
  by (simp add: sort_faces_def)

text \<open>
  Claim C9 says that a request with a source index below 1 fails before any engine is
  called.  The index is only looked at by \<open>get_face\<close>, after both images were fetched
  and the locator has run on both: on the sample installation the trace of such a request
  holds two \<open>Detect\<close> events.
\<close>

theorem source_index_zero_runs_detection_counterexample:
  "fst (perform_face_swap_logic sample_env ready_app ''s'' ''t'' 0 1)
     = Inl (HTTPException 400 ''The image includes only 3 faces, however, you asked for face 0'')
   \<and> trace (world (snd (perform_face_swap_logic sample_env ready_app ''s'' ''t'' 0 1)))
     = [HttpRequest ''s'', BodyReceived ''s'' 3, HttpRequest ''t'', BodyReceived ''t'' 3,
        Detect, Detect]"
  by code_simp

text \<open>
  Claim C9, as the code has it.  A request with a source index below 1 always fails, and
  the swapper engine is never called for it.  When the engines are initialised, both
  images are fetched and the locator answers for both, the failure is the HTTP 400 error
  of \<open>get_face\<close> with the number of faces in the source image and the index, and it comes
  after the two calls of the locator.
\<close>

theorem nonpositive_source_index_fails_before_swap:
  assumes "src_index < 1"
  shows "\<exists>e a1 evs.
           perform_face_swap_logic env a src_url tgt_url src_index tgt_index = (Inl e, a1) \<and>
           trace (world a1) = trace (world a) @ evs \<and> Swap \<notin> set evs \<and>
           (\<forall>fa sw source_image target_image w1 w2 source_detections target_detections.
              face_analysis_app a = Some fa \<and> swapper_model a = Some sw \<and>
              download_image env (world a) src_url = (Inr source_image, w1) \<and>
              download_image env w1 tgt_url = (Inr target_image, w2) \<and>
              locator_get env fa source_image = Inr source_detections \<and>
              locator_get env fa target_image = Inr target_detections
              \<longrightarrow> e = HTTPException 400
                        (''The image includes only '' @ str_nat (length source_detections)
                           @ '' faces, however, you asked for face '' @ str_int src_index) \<and>
                  trace (world a1) = trace w2 @ [Detect, Detect])"
proof (cases "\<exists>fa sw. face_analysis_app a = Some fa \<and> swapper_model a = Some sw")
  case False
  then have "perform_face_swap_logic env a src_url tgt_url src_index tgt_index
               = (Inl (HTTPException 500 ''Models not initialized''), a)"
    by (auto simp: perform_face_swap_logic_def split: option.splits)
  with False show ?thesis by auto
next
  case True
  then obtain fa sw where g: "face_analysis_app a = Some fa" "swapper_model a = Some sw"
    by blast
  have bad: "get_face (sort_faces ds) src_index
               = Inl (HTTPException 400
                        (''The image includes only '' @ str_nat (length ds)
                           @ '' faces, however, you asked for face '' @ str_int src_index))" for ds
    using assms get_face_out_of_range [of src_index "sort_faces ds"]
    by (simp add: face_message_def)
  obtain r w' where st: "swap_stages env fa sw (world a) src_url tgt_url src_index tgt_index = (r, w')"
    by (cases "swap_stages env fa sw (world a) src_url tgt_url src_index tgt_index") auto
  have p: "perform_face_swap_logic env a src_url tgt_url src_index tgt_index
             = (r, a\<lparr>world := w'\<rparr>)"
    using g st by (simp add: perform_face_swap_logic_def)
  obtain r1 w1 where d1: "download_image env (world a) src_url = (r1, w1)"
    by (cases "download_image env (world a) src_url") auto
  obtain r2 w2 where d2: "download_image env w1 tgt_url = (r2, w2)"
    by (cases "download_image env w1 tgt_url") auto
  from download_image_trace [OF d1] obtain evs1 where
    t1: "trace w1 = trace (world a) @ evs1" "Swap \<notin> set evs1" by auto
  from download_image_trace [OF d2] obtain evs2 where
    t2: "trace w2 = trace w1 @ evs2" "Swap \<notin> set evs2" by auto
  have main: "\<exists>e evs. r = Inl e \<and> trace w' = trace (world a) @ evs \<and> Swap \<notin> set evs \<and>
      (\<forall>source_image target_image source_detections target_detections.
         r1 = Inr source_image \<and> r2 = Inr target_image \<and>
         locator_get env fa source_image = Inr source_detections \<and>
         locator_get env fa target_image = Inr target_detections
         \<longrightarrow> e = HTTPException 400
                   (''The image includes only '' @ str_nat (length source_detections)
                      @ '' faces, however, you asked for face '' @ str_int src_index) \<and>
             trace w' = trace w2 @ [Detect, Detect])"
    using st d1 d2 t1 t2
    by (auto simp: swap_stages_def Let_def bad split: sum.splits)
  then obtain e evs where m: "r = Inl e" "trace w' = trace (world a) @ evs" "Swap \<notin> set evs"
    and m4: "\<forall>source_image target_image source_detections target_detections.
         r1 = Inr source_image \<and> r2 = Inr target_image \<and>
         locator_get env fa source_image = Inr source_detections \<and>
         locator_get env fa target_image = Inr target_detections
         \<longrightarrow> e = HTTPException 400
                   (''The image includes only '' @ str_nat (length source_detections)
                      @ '' faces, however, you asked for face '' @ str_int src_index) \<and>
             trace w' = trace w2 @ [Detect, Detect]"
    by blast
  show ?thesis
  proof (intro exI [of _ e] exI [of _ "a\<lparr>world := w'\<rparr>"] exI [of _ evs] conjI allI impI)
    show "perform_face_swap_logic env a src_url tgt_url src_index tgt_index
            = (Inl e, a\<lparr>world := w'\<rparr>)" using p m(1) by simp
    show "trace (world (a\<lparr>world := w'\<rparr>)) = trace (world a) @ evs" using m(2) by simp
    show "Swap \<notin> set evs" by (rule m(3))
  next
    fix fa' sw' source_image target_image w1' w2' source_detections target_detections
    assume h: "face_analysis_app a = Some fa' \<and> swapper_model a = Some sw' \<and>
              download_image env (world a) src_url = (Inr source_image, w1') \<and>
              download_image env w1' tgt_url = (Inr target_image, w2') \<and>
              locator_get env fa' source_image = Inr source_detections \<and>
              locator_get env fa' target_image = Inr target_detections"
    then have eqs: "fa' = fa" "r1 = Inr source_image" "w1' = w1" using g d1 by auto
    with h d2 have eqs2: "r2 = Inr target_image" "w2' = w2" by auto
    from m4 eqs eqs2 h
    have "e = HTTPException 400
                   (''The image includes only '' @ str_nat (length source_detections)
                      @ '' faces, however, you asked for face '' @ str_int src_index) \<and>
             trace w' = trace w2 @ [Detect, Detect]" by blast
    then show "e = HTTPException 400
                   (''The image includes only '' @ str_nat (length source_detections)
                      @ '' faces, however, you asked for face '' @ str_int src_index)"
      and "trace (world (a\<lparr>world := w'\<rparr>)) = trace w2' @ [Detect, Detect]"
      using eqs2 by simp_all
  qed
qed


theorem nonpositive_source_index_fails_before_swap_witness:
  "(0::int) < 1 \<and>
   (\<exists>a1. perform_face_swap_logic sample_env ready_app ''s'' ''t'' 0 1
           = (Inl (HTTPException 400
                ''The image includes only 3 faces, however, you asked for face 0''), a1) \<and>
         Swap \<notin> set (trace (world a1)))"
proof -
  define w1 where "w1 = snd (download_image sample_env (world ready_app) ''s'')"
  define w2 where "w2 = snd (download_image sample_env w1 ''t'')"
  have "fst (download_image sample_env (world ready_app) ''s'') = Inr sample_image"
    by code_simp
  then have d1: "download_image sample_env (world ready_app) ''s'' = (Inr sample_image, w1)"
    by (simp add: w1_def prod_eq_iff)
  have "fst (download_image sample_env w1 ''t'') = Inr sample_image"
    unfolding w1_def by code_simp
  then have d2: "download_image sample_env w1 ''t'' = (Inr sample_image, w2)"
    by (simp add: w2_def prod_eq_iff)
  have g: "face_analysis_app ready_app = Some (Locator 0)"
    "swapper_model ready_app = Some (Swapper 1)"
    by (simp_all add: ready_app_def)
  have l: "locator_get sample_env (Locator 0) sample_image = Inr sample_faces"
    by (simp add: sample_env_def)
  have t0: "trace (world ready_app) = []"
    by (simp add: ready_app_def sample_world_def)
  have msg: "''The image includes only '' @ str_nat (length sample_faces)
               @ '' faces, however, you asked for face '' @ str_int 0
             = ''The image includes only 3 faces, however, you asked for face 0''"
    by (simp add: sample_faces_def str_int_def str_nat.simps digit_char_def)
  have z: "(0::int) < 1" by simp
  from nonpositive_source_index_fails_before_swap
    [OF z, where env = sample_env and a = ready_app and src_url = "''s''"
       and tgt_url = "''t''" and tgt_index = 1]
  obtain e a1 evs where
    p: "perform_face_swap_logic sample_env ready_app ''s'' ''t'' 0 1 = (Inl e, a1)"
    and t: "trace (world a1) = trace (world ready_app) @ evs" and s: "Swap \<notin> set evs"
    and c: "\<forall>fa sw source_image target_image w1 w2 source_detections target_detections.
              face_analysis_app ready_app = Some fa \<and> swapper_model ready_app = Some sw \<and>
              download_image sample_env (world ready_app) ''s'' = (Inr source_image, w1) \<and>
              download_image sample_env w1 ''t'' = (Inr target_image, w2) \<and>
              locator_get sample_env fa source_image = Inr source_detections \<and>
              locator_get sample_env fa target_image = Inr target_detections
              \<longrightarrow> e = HTTPException 400
                        (''The image includes only '' @ str_nat (length source_detections)
                           @ '' faces, however, you asked for face '' @ str_int 0) \<and>
                  trace (world a1) = trace w2 @ [Detect, Detect]"
    by blast
  from c g d1 d2 l have "e = HTTPException 400
      (''The image includes only '' @ str_nat (length sample_faces)
         @ '' faces, however, you asked for face '' @ str_int 0)"
    by blast
  then have "e = HTTPException 400
      ''The image includes only 3 faces, however, you asked for face 0''"
    using msg by simp
  with p t s t0 show ?thesis by simp
qed

section \<open>The manual repair endpoint\<close>

text \<open>
  Claim C7 says that the request after a manual repair initialises the engines again,
  lazily.  \<open>perform_face_swap_logic\<close> never initialises anything: it looks at the two
  globals, which the endpoint has just set to \<open>None\<close>.  On the sample installation with
  loaded engines, the request that follows a successful repair is refused with
  "Models not initialized".
\<close>

theorem fix_model_then_request_fails_counterexample:
  "fst (fix_model_endpoint ready_app)
     = (True, ''Model fix completed. Restart the application to reload models.'') \<and>
   perform_face_swap_logic sample_env (snd (fix_model_endpoint ready_app)) ''s'' ''t'' 1 1
     = (Inl (HTTPException 500 ''Models not initialized''), snd (fix_model_endpoint ready_app)) \<and>
   fst (runsync_face_swap sample_env (snd (fix_model_endpoint ready_app))
          \<lparr>input = \<lparr>source_url = ''s'', target_url = ''t'', source_index = 1,
                     target_index = 1\<rparr>\<rparr>)
     = Reply200 \<lparr>output' = \<lparr>success = False, image_base64 = None,
                              message = ''Models not initialized''\<rparr>\<rparr>"
  by code_simp

text \<open>
  Claim C7, as the code has it.  \<open>/fix-model\<close> runs \<open>fix_corrupted_model\<close> on
  \<open>inswapper_128.onnx\<close> and calls no engine and no loader (the trace is unchanged).  When
  the repair succeeds, the entry of the cache and both globals are cleared, and from then
  on every swap request fails with HTTP 500 "Models not initialized", whatever the
  request and the outside world; the reply itself says that the application has to be
  restarted.  When the repair fails, the cache and the globals stay as they were.
\<close>

theorem fix_model_endpoint_invalidates_without_reload:
  assumes "fix_model_endpoint a = (reply, a1)"
  shows "world a1 = snd (fix_corrupted_model (world a) ''inswapper_128.onnx'') \<and>
         trace (world a1) = trace (world a) \<and>
         (fst reply \<longrightarrow>
            cache a1 = None \<and> face_analysis_app a1 = None \<and> swapper_model a1 = None \<and>
            (\<forall>env src_url tgt_url src_index tgt_index.
               perform_face_swap_logic env a1 src_url tgt_url src_index tgt_index
                 = (Inl (HTTPException 500 ''Models not initialized''), a1))) \<and>
         (\<not> fst reply \<longrightarrow>
            cache a1 = cache a \<and> face_analysis_app a1 = face_analysis_app a \<and>
            swapper_model a1 = swapper_model a)"
proof -
  obtain ok w1 where f: "fix_corrupted_model (world a) ''inswapper_128.onnx'' = (ok, w1)"
    by (cases "fix_corrupted_model (world a) ''inswapper_128.onnx''") auto
  have t: "trace w1 = trace (world a)"
    using fix_corrupted_model_trace' [OF f] .
  show ?thesis
  proof (cases ok)
    case True
    then have "reply = (True, ''Model fix completed. Restart the application to reload models.'')"
      and a1: "a1 = (cache_clear (a\<lparr>world := w1\<rparr>))\<lparr>face_analysis_app := None, swapper_model := None\<rparr>"
      using assms f by (simp_all add: fix_model_endpoint_def)
    then show ?thesis
      using f t by (simp add: cache_clear_def perform_face_swap_logic_def)
  next
    case False
    then have "reply = (False, ''Model fix failed'')" and "a1 = a\<lparr>world := w1\<rparr>"
      using assms f by (simp_all add: fix_model_endpoint_def)
    then show ?thesis
      using f t by simp
  qed
qed

theorem fix_model_endpoint_invalidates_without_reload_witness:
  "fst (fst (fix_model_endpoint ready_app)) \<and>
   cache (snd (fix_model_endpoint ready_app)) = None \<and>
   perform_face_swap_logic sample_env (snd (fix_model_endpoint ready_app)) ''s'' ''t'' 2 1
     = (Inl (HTTPException 500 ''Models not initialized''), snd (fix_model_endpoint ready_app))"
proof -
  have e: "fix_model_endpoint ready_app
             = (fst (fix_model_endpoint ready_app), snd (fix_model_endpoint ready_app))"
    by simp
  have ok: "fst (fst (fix_model_endpoint ready_app))"
    by code_simp
  from fix_model_endpoint_invalidates_without_reload [OF e] ok show ?thesis
    by blast
qed

section \<open>The size limit of a fetch\<close>

lemma py_int_20971520: "py_int ''20971520'' = Inr 20971520"
  by (simp add: py_int_def is_digit_def digit_val_def)

lemma truediv_20: "py_truediv 20971520 1048576 = Inr 20"
  by code_simp

lemma fmt_20: "fmt_2f 20 = ''20.00''"
  by code_simp

lemma check_oversize:
  "check_content_length oversize_response
     = Inl (HTTPException 413 ''Image too large: 20.00 MB (max 10MB)'')"
  by (simp add: check_content_length_def oversize_response_def py_int_20971520 truediv_20 fmt_20)

lemma truediv_over_cap:
  assumes "10 * 1024 * 1024 < n"
  shows "(\<exists>e. py_truediv n (1024 * 1024) = Inl e) \<or>
         (\<exists>q. py_truediv n (1024 * 1024) = Inr q \<and> 10 < q)"
proof -
  define x :: rat where "x = of_int n / of_int (1024 * 1024)"
  have "10485761 \<le> n" using assms by simp
  then have "(10485761::rat) \<le> of_int n" by (metis of_int_le_iff of_int_numeral)
  then have x: "10485761 / 1048576 \<le> x" by (simp add: x_def divide_right_mono)
  then have x0: "0 \<le> x" by linarith
  have "(10::rat) < (10485761 / 1048576) * (1 - 1 / 2 ^ 53)" by simp
  also have "\<dots> \<le> x * (1 - 1 / 2 ^ 53)" using x by (intro mult_right_mono) simp_all
  also have "\<dots> \<le> fl x" using fl_lower [OF x0] .
  finally have "10 < fl x" .
  then show ?thesis
    by (simp add: py_truediv_def Let_def x_def)
qed

lemma py_int_nonempty: "py_int cl = Inr n \<Longrightarrow> cl \<noteq> []"
  by (auto simp: py_int_def Let_def split: if_splits)

lemma check_content_length_over_cap:
  assumes "content_length r = Some cl" and "py_int cl = Inr n" and "10 * 1024 * 1024 < n"
  shows "\<exists>e. check_content_length r = Inl e"
  using assms truediv_over_cap [OF assms(3)] py_int_nonempty [OF assms(2)]
  by (auto simp: check_content_length_def)

text \<open>
  Claim C5 says that a fetch whose response declares more than 10 MB fails with a 4xx
  status and without reading the body.  The size is looked at after \<open>requests.get\<close> has
  returned, that is after the whole body was read; and the \<open>HTTPException\<close> with status
  413 is raised inside the \<open>try\<close> of \<open>download_image\<close>, whose last \<open>except\<close> clause
  catches it and raises a 500.  For a server that sends 20 MB:
\<close>

theorem oversize_fetch_reports_500_after_download_counterexample:
  "download_image oversize_env sample_world ''u''
     = (Inl (HTTPException 500
          ''Error processing image from u: 413: Image too large: 20.00 MB (max 10MB)''),
        \<lparr>fsys = sample_fs, trace = [HttpRequest ''u'', BodyReceived ''u'' 20971520]\<rparr>)"
proof -
  have "status_code oversize_response = 200"
    by (simp add: oversize_response_def)
  then have "process_response oversize_env oversize_response
          = Inl (HTTPException 413 ''Image too large: 20.00 MB (max 10MB)'')"
    by (simp add: process_response_def check_oversize raise_for_status_def)
  moreover have "str_nat 413 = ''413''"
    by (simp add: str_nat.simps digit_char_def)
  moreover have "length (content oversize_response) = 20971520"
    by (simp add: oversize_response_def)
  ultimately show ?thesis
    by (simp add: download_image_def Let_def oversize_env_def sample_env_def download_error_def
          emit_def sample_world_def)
qed

text \<open>
  Claim C5, as the code has it.  When the response declares a content length above
  \<open>10 * 1024 * 1024\<close> bytes, \<open>download_image\<close> raises an \<open>HTTPException\<close> and returns no
  image; the trace shows that the body had been received in full by then.
\<close>

theorem oversize_fetch_fails_after_download:
  assumes "requests_get env url = Inr r"
    and "content_length r = Some cl" and "py_int cl = Inr n" and "10 * 1024 * 1024 < n"
  shows "\<exists>c d. download_image env w url
           = (Inl (HTTPException c d),
              emit (BodyReceived url (length (content r))) (emit (HttpRequest url) w))"
proof -
  from check_content_length_over_cap [OF assms(2-4)] obtain e
    where "check_content_length r = Inl e" by blast
  then obtain e' where "process_response env r = Inl e'"
    by (cases "raise_for_status r") (auto simp: process_response_def)
  moreover have "\<exists>c d. download_error env url e' = HTTPException c d"
    by (cases e') (simp_all add: download_error_def)
  ultimately show ?thesis
    using assms(1) by (auto simp: download_image_def Let_def)
qed

theorem oversize_fetch_fails_after_download_witness:
  "(10 * 1024 * 1024 < (20971520::int)) \<and>
   (\<exists>c d. fst (download_image oversize_env sample_world ''u'') = Inl (HTTPException c d)) \<and>
   BodyReceived ''u'' 20971520
     \<in> set (trace (snd (download_image oversize_env sample_world ''u'')))"
proof -
  have g: "requests_get oversize_env ''u'' = Inr oversize_response"
    by (simp add: oversize_env_def)
  have c: "content_length oversize_response = Some ''20971520''"
    and l: "length (content oversize_response) = 20971520"
    by (simp_all add: oversize_response_def)
  have n: "10 * 1024 * 1024 < (20971520::int)" by simp
  from oversize_fetch_fails_after_download [OF g c py_int_20971520 n, of sample_world]
  show ?thesis using l by auto
qed

end
